theory Spec2Isabelle
  imports Complex_Main
begin

section \<open>The two-column label aligner of \<open>cellprofiler/gui/namesubscriber.py\<close>\<close>

text \<open>
  \<open>align_twosided_items(parent, items, min_spacing, left_texts, right_texts)\<close> relabels
  the menu items \<open>items\<close> in place. The model keeps what the function reads and writes:
  \<^item> a menu item is its label (\<open>SetItemLabel\<close> replaces it), so \<open>items\<close> is the list of
    the current labels and the result is the list of the labels after the call;
  \<^item> \<open>parent.GetTextExtent\<close> is a parameter of type \<open>string \<Rightarrow> int \<times> int\<close> (width and
    height in pixels); the code reads component \<open>[0]\<close>;
  \<^item> \<open>wx.Platform\<close> is a parameter, compared with the string \<open>__WXMSW__\<close> as the code does;
  \<^item> the two ways the body can raise are values of \<open>py_error\<close>: \<open>max\<close> of an empty
    list (\<open>ValueError\<close>) and integer division by zero (\<open>ZeroDivisionError\<close>);
    \<open>IndexError\<close> belongs to the widget's methods further down.
  The module is Python 2 (classic wx): \<open>/\<close> on two integers is floor division, which
  is \<open>div\<close> on \<open>int\<close>, and \<open>int(\<dots>)\<close> of an integer is the identity.
\<close>

datatype py_error = ValueError | ZeroDivisionError | IndexError

type_synonym text_extent = "string \<Rightarrow> int \<times> int"

text \<open>\<open>parent.GetTextExtent(s)[0]\<close>: the width component.\<close>

definition text_width :: "text_extent \<Rightarrow> string \<Rightarrow> int" where
  "text_width GetTextExtent s = fst (GetTextExtent s)"

definition TAB :: char where
  "TAB = CHR 0x09"

definition spaces :: "int \<Rightarrow> string" where
  \<comment> \<open>\<open>" " * n\<close>: the empty string when \<open>n \<le> 0\<close>.\<close>
  "spaces n = replicate (nat n) CHR '' ''"

definition MSW :: string where
  "MSW = ''__WXMSW__''"

text \<open>Lines 23-24: the Windows loop over \<open>zip(items, left_texts, right_texts)\<close>. The loop
  ends with the shortest of the three sequences; the items it did not reach keep their labels.\<close>

fun tab_loop :: "string list \<Rightarrow> string list \<Rightarrow> string list \<Rightarrow> string list" where
  "tab_loop (item # items) (left # left_texts) (right # right_texts) =
     (left @ [TAB] @ right) # tab_loop items left_texts right_texts"
| "tab_loop items _ _ = items"

text \<open>Lines 27-28: the list comprehension over \<open>zip(left_texts, right_texts)\<close>.\<close>

definition widths_of :: "text_extent \<Rightarrow> int \<Rightarrow> string list \<Rightarrow> string list \<Rightarrow> int list" where
  "widths_of GetTextExtent min_spacing left_texts right_texts =
     map (\<lambda>(left, right). text_width GetTextExtent (left @ spaces min_spacing @ right))
         (zip left_texts right_texts)"

text \<open>Line 29: \<open>max\<close> of a list raises \<open>ValueError\<close> on the empty list.\<close>

definition py_max :: "int list \<Rightarrow> py_error + int" where
  "py_max ws = (case ws of [] \<Rightarrow> Inl ValueError | w # rest \<Rightarrow> Inr (fold max rest w))"

text \<open>Line 30.\<close>

definition spacewidth_of :: "text_extent \<Rightarrow> int" where
  "spacewidth_of GetTextExtent =
     text_width GetTextExtent [CHR '' '', CHR '' ''] - text_width GetTextExtent [CHR '' '']"

text \<open>Line 33: \<open>int(min_spacing + (maxwidth - initial_width) / spacewidth)\<close>.\<close>

definition numspaces_of :: "int \<Rightarrow> int \<Rightarrow> int \<Rightarrow> int \<Rightarrow> py_error + int" where
  "numspaces_of min_spacing maxwidth initial_width spacewidth =
     (if spacewidth = 0 then Inl ZeroDivisionError
      else Inr (min_spacing + (maxwidth - initial_width) div spacewidth))"

text \<open>Lines 31-34: the loop over \<open>zip(items, left_texts, right_texts, widths)\<close>. The division
  is evaluated before the label is set, so an iteration that raises changes nothing.\<close>

fun pad_loop ::
  "int \<Rightarrow> int \<Rightarrow> int \<Rightarrow> string list \<Rightarrow> string list \<Rightarrow> string list \<Rightarrow> int list
     \<Rightarrow> py_error + string list" where
  "pad_loop min_spacing maxwidth spacewidth
       (item # items) (left # left_texts) (right # right_texts) (initial_width # widths) =
     (case numspaces_of min_spacing maxwidth initial_width spacewidth of
        Inl e \<Rightarrow> Inl e
      | Inr numspaces \<Rightarrow>
          (case pad_loop min_spacing maxwidth spacewidth items left_texts right_texts widths of
             Inl e \<Rightarrow> Inl e
           | Inr rest \<Rightarrow> Inr ((left @ spaces numspaces @ right) # rest)))"
| "pad_loop min_spacing maxwidth spacewidth items _ _ _ = Inr items"

definition align_twosided_items ::
  "text_extent \<Rightarrow> string \<Rightarrow> string list \<Rightarrow> int \<Rightarrow> string list \<Rightarrow> string list
     \<Rightarrow> py_error + string list" where
  "align_twosided_items GetTextExtent Platform items min_spacing left_texts right_texts =
     (if items \<noteq> [] then
        if Platform = MSW then Inr (tab_loop items left_texts right_texts)
        else
          (let widths = widths_of GetTextExtent min_spacing left_texts right_texts in
           case py_max widths of
             Inl e \<Rightarrow> Inl e
           | Inr maxwidth \<Rightarrow>
               pad_loop min_spacing maxwidth (spacewidth_of GetTextExtent)
                 items left_texts right_texts widths)
      else Inr items)"

text \<open>The label that lines 27, 33 and 34 together give one row, as a function of the row
  and of the two aggregates \<open>maxwidth\<close> and \<open>spacewidth\<close> (division by zero apart, which
  \<open>numspaces_of\<close> models).\<close>

definition padded_label :: "text_extent \<Rightarrow> int \<Rightarrow> int \<Rightarrow> int \<Rightarrow> string \<Rightarrow> string \<Rightarrow> string" where
  "padded_label GetTextExtent min_spacing maxwidth spacewidth left right =
     left @ spaces (min_spacing
                     + (maxwidth - text_width GetTextExtent (left @ spaces min_spacing @ right))
                         div spacewidth) @ right"

subsection \<open>Font metrics used at concrete inputs\<close>

text \<open>A fixed-pitch font in which every character is \<open>k\<close> pixels wide; \<open>k = 1\<close> is
  \<open>measureText(s) = len(s)\<close>, \<open>k = 0\<close> and \<open>k < 0\<close> are the degenerate metrics.\<close>

definition fixed_pitch :: "int \<Rightarrow> text_extent" where
  "fixed_pitch k s = (k * int (length s), 1)"

text \<open>A value of \<open>wx.Platform\<close> other than \<open>__WXMSW__\<close>.\<close>

definition GTK :: string where
  "GTK = ''__WXGTK__''"

section \<open>The SpacePadded algorithm as the specification words it\<close>

text \<open>
  Steps 1 to 5 of the specification's SpacePadded mode, over \<open>measureText\<close> and a
  sequence of pairs, with the quotient and the floor taken in the reals as written:
  \<open>extraSpaces = floor(minSpacing + (maxWidth - w) / spaceUnit)\<close>. These definitions are
  compared with the code; the code's model above does not use them.
\<close>

definition spec_width :: "(string \<Rightarrow> int) \<Rightarrow> int \<Rightarrow> string \<times> string \<Rightarrow> int" where
  "spec_width measureText minSpacing pair =
     measureText (fst pair @ replicate (nat minSpacing) CHR '' '' @ snd pair)"

definition spec_maxWidth :: "(string \<Rightarrow> int) \<Rightarrow> int \<Rightarrow> (string \<times> string) list \<Rightarrow> int" where
  "spec_maxWidth measureText minSpacing pairs =
     Max (set (map (spec_width measureText minSpacing) pairs))"

definition spec_spaceUnit :: "(string \<Rightarrow> int) \<Rightarrow> int" where
  "spec_spaceUnit measureText = measureText ''  '' - measureText '' ''"

definition spec_extraSpaces :: "int \<Rightarrow> int \<Rightarrow> int \<Rightarrow> int \<Rightarrow> int" where
  "spec_extraSpaces minSpacing maxWidth w spaceUnit =
     \<lfloor>real_of_int minSpacing + real_of_int (maxWidth - w) / real_of_int spaceUnit\<rfloor>"

definition spec_SpacePadded ::
  "(string \<Rightarrow> int) \<Rightarrow> int \<Rightarrow> (string \<times> string) list \<Rightarrow> string list" where
  "spec_SpacePadded measureText minSpacing pairs =
     map (\<lambda>pair. fst pair
            @ replicate (nat (spec_extraSpaces minSpacing
                                (spec_maxWidth measureText minSpacing pairs)
                                (spec_width measureText minSpacing pair)
                                (spec_spaceUnit measureText))) CHR '' ''
            @ snd pair) pairs"

section \<open>The widget: \<open>NameSubcriberComboBox\<close>\<close>

text \<open>
  The class keeps its value in a \<open>wx.ComboBox\<close>, which belongs to the toolkit and not to
  this module. The four members of the combo box that the methods below use are
  therefore parameters, over an arbitrary type \<open>'c\<close> of combo box states: reading and
  writing \<open>Value\<close>, writing \<open>Items\<close> and reading \<open>Selection\<close>.
\<close>

record 'c wx_ComboBox =
  get_Value :: "'c \<Rightarrow> string"
  set_Value :: "string \<Rightarrow> 'c \<Rightarrow> 'c"
  set_Items :: "string list \<Rightarrow> 'c \<Rightarrow> 'c"
  get_Selection :: "'c \<Rightarrow> int"

text \<open>A choice is \<open>(Name, Parent, modulenum)\<close>. The fields of the widget that the
  modelled methods read or write, and \<open>IDs\<close>, which they leave alone.\<close>

type_synonym choice = "string \<times> string \<times> int"

record 'c NameSubcriberComboBox =
  orig_choices :: "choice list"
  IDs :: "int list"
  combo_dlg :: 'c
  annotation_dlg_Label :: string

text \<open>\<open>xs[i]\<close>: an index below zero counts from the end, one outside
  \<open>-len(xs) .. len(xs) - 1\<close> raises \<open>IndexError\<close>.\<close>

definition py_getitem :: "'a list \<Rightarrow> int \<Rightarrow> py_error + 'a" where
  "py_getitem xs i =
     (if 0 \<le> i \<and> i < int (length xs) then Inr (xs ! nat i)
      else if i < 0 \<and> - int (length xs) \<le> i then Inr (xs ! nat (int (length xs) + i))
      else Inl IndexError)"

text \<open>\<open>'%02d' % n\<close>: decimal, padded with zeros to two characters, the sign included.\<close>

function decimal :: "nat \<Rightarrow> string" where
  "decimal n =
     (if n < 10 then [char_of (48 + n)]
      else decimal (n div 10) @ [char_of (48 + n mod 10)])"
  by pat_completeness auto
termination
  by (relation "measure (\<lambda>n. n)") auto

definition format_02d :: "int \<Rightarrow> string" where
  "format_02d n =
     (let body = (if n < 0 then CHR ''-'' # decimal (nat (- n)) else decimal (nat n))
      in (if n < 0 then [] else replicate (2 - length body) CHR ''0'') @ body)"

text \<open>Lines 81-86. A method returns the exception it raised, if any, and the widget as it
  is at that moment.\<close>

definition update_annotation ::
  "'c wx_ComboBox \<Rightarrow> 'c NameSubcriberComboBox \<Rightarrow> py_error option \<times> 'c NameSubcriberComboBox" where
  "update_annotation wx self =
     (let self1 = self\<lparr>annotation_dlg_Label := []\<rparr> in
      if orig_choices self1 \<noteq> [] then
        (case py_getitem (orig_choices self1) (get_Selection wx (combo_dlg self1)) of
           Inl e \<Rightarrow> (Some e, self1)
         | Inr ch \<Rightarrow>
             if fst (snd ch) \<noteq> [] then
               (None, self1\<lparr>annotation_dlg_Label :=
                  ''(from '' @ fst (snd ch) @ '' #'' @ format_02d (snd (snd ch)) @ '')''\<rparr>)
             else (None, self1))
      else (None, self1))"

text \<open>Lines 140-141.\<close>

definition GetValue :: "'c wx_ComboBox \<Rightarrow> 'c NameSubcriberComboBox \<Rightarrow> string" where
  "GetValue wx self = get_Value wx (combo_dlg self)"

text \<open>Lines 143-146; \<open>Refresh\<close> repaints and changes none of the modelled fields.\<close>

definition SetValue ::
  "'c wx_ComboBox \<Rightarrow> string \<Rightarrow> 'c NameSubcriberComboBox
     \<Rightarrow> py_error option \<times> 'c NameSubcriberComboBox" where
  "SetValue wx v self =
     update_annotation wx (self\<lparr>combo_dlg := set_Value wx v (combo_dlg self)\<rparr>)"

text \<open>Lines 129-136.\<close>

definition SetItems ::
  "'c wx_ComboBox \<Rightarrow> choice list \<Rightarrow> 'c NameSubcriberComboBox
     \<Rightarrow> py_error option \<times> 'c NameSubcriberComboBox" where
  "SetItems wx choices self =
     (let self1 = self\<lparr>orig_choices := choices\<rparr>;
          current = GetValue wx self1;
          self2 = self1\<lparr>combo_dlg := set_Items wx (map fst choices) (combo_dlg self1)\<rparr>
      in case SetValue wx current self2 of
           (Some e, self3) \<Rightarrow> (Some e, self3)
         | (None, self3) \<Rightarrow> update_annotation wx self3)"

text \<open>A read-only combo box (the widget creates its combo box with style
  \<open>wx.CB_READONLY\<close>, line 49) for concrete inputs. Its state is the item list and the
  selected index, \<open>-1\<close> for none; its value is the selected item, or the empty string.
  Writing a value selects the first item equal to it and is ignored when no item is;
  replacing the items clears the selection (the comment on line 133).\<close>

definition readonly_combo :: "(string list \<times> int) wx_ComboBox" where
  "readonly_combo =
     \<lparr>get_Value = (\<lambda>c. if 0 \<le> snd c \<and> snd c < int (length (fst c))
                          then fst c ! nat (snd c) else []),
      set_Value = (\<lambda>v c. if v \<in> set (fst c)
                            then (fst c, int (length (takeWhile (\<lambda>x. x \<noteq> v) (fst c))))
                            else c),
      set_Items = (\<lambda>names c. (names, - 1)),
      get_Selection = snd\<rparr>"

text \<open>A widget over that combo box, showing its one choice.\<close>

definition one_choice_widget :: "(string list \<times> int) NameSubcriberComboBox" where
  "one_choice_widget =
     \<lparr>orig_choices = [(''Nuclei'', ''IdentifyPrimaryObjects'', 2)], IDs = [100],
      combo_dlg = ([''Nuclei''], 0), annotation_dlg_Label = []\<rparr>"

section \<open>Properties\<close>

subsection \<open>The loops in closed form\<close>

lemma tab_loop_eq:
  "tab_loop items ls rs =
     map (\<lambda>(l, r). l @ [TAB] @ r) (take (length items) (zip ls rs))
       @ drop (min (length ls) (length rs)) items"
  by (induction items ls rs rule: tab_loop.induct) auto

lemma pad_loop_eq:
  "sw \<noteq> 0 \<Longrightarrow> pad_loop sp mw sw items ls rs ws =
     Inr (map (\<lambda>(l, r, w). l @ spaces (sp + (mw - w) div sw) @ r)
            (take (length items) (zip ls (zip rs ws)))
          @ drop (min (length ls) (min (length rs) (length ws))) items)"
  by (induction sp mw sw items ls rs ws rule: pad_loop.induct) (auto simp: numspaces_of_def)

lemma pad_loop_zero:
  "pad_loop sp mw 0 items ls rs ws =
     (if items = [] \<or> ls = [] \<or> rs = [] \<or> ws = [] then Inr items else Inl ZeroDivisionError)"
  by (induction sp mw "0::int" items ls rs ws rule: pad_loop.induct) (auto simp: numspaces_of_def)

lemma py_max_eq: "py_max ws = (if ws = [] then Inl ValueError else Inr (Max (set ws)))"
proof (cases ws)
  case Nil
  then show ?thesis by (simp add: py_max_def)
next
  case (Cons w rest)
  have "Max (set (w # rest)) = fold max rest w"
    by (rule Max.set_eq_fold)
  with Cons show ?thesis by (simp add: py_max_def)
qed

lemma zip_with_measured:
  "zip ls (zip rs (map f (zip ls rs))) = map (\<lambda>(l, r). (l, r, f (l, r))) (zip ls rs)"
proof (induction ls arbitrary: rs)
  case Nil
  show ?case by simp
next
  case (Cons l ls)
  show ?case by (cases rs) (simp_all add: Cons.IH)
qed

lemma length_widths_of [simp]:
  "length (widths_of gte sp ls rs) = min (length ls) (length rs)"
  by (simp add: widths_of_def)

lemma widths_of_Nil_iff [simp]: "widths_of gte sp ls rs = [] \<longleftrightarrow> ls = [] \<or> rs = []"
  by (cases ls; cases rs) (simp_all add: widths_of_def)

lemma widths_of_nth:
  "i < length ls \<Longrightarrow> i < length rs \<Longrightarrow>
     widths_of gte sp ls rs ! i = text_width gte (ls ! i @ spaces sp @ rs ! i)"
  by (simp add: widths_of_def)

subsection \<open>The whole function, by platform\<close>

lemma align_msw_eq:
  "align_twosided_items gte MSW items sp ls rs =
     Inr (map (\<lambda>(l, r). l @ [TAB] @ r) (take (length items) (zip ls rs))
          @ drop (min (length ls) (length rs)) items)"
  by (simp add: align_twosided_items_def tab_loop_eq)

lemma align_padded_eq:
  assumes "Platform \<noteq> MSW" and "ls \<noteq> []" and "rs \<noteq> []" and "spacewidth_of gte \<noteq> 0"
  shows "align_twosided_items gte Platform items sp ls rs =
     Inr (map (\<lambda>(l, r). padded_label gte sp (Max (set (widths_of gte sp ls rs)))
                           (spacewidth_of gte) l r)
            (take (length items) (zip ls rs))
          @ drop (min (length ls) (length rs)) items)"
proof (cases "items = []")
  case True
  then show ?thesis by (simp add: align_twosided_items_def)
next
  case False
  have z: "zip ls (zip rs (widths_of gte sp ls rs)) =
      map (\<lambda>(l, r). (l, r, text_width gte (l @ spaces sp @ r))) (zip ls rs)"
    unfolding widths_of_def
    using zip_with_measured [of ls rs "\<lambda>(l, r). text_width gte (l @ spaces sp @ r)"]
    by simp
  show ?thesis
    using False assms
    by (simp add: align_twosided_items_def py_max_eq pad_loop_eq z take_map
        padded_label_def case_prod_unfold comp_def)
qed

lemma align_no_pairs:
  assumes "Platform \<noteq> MSW" and "items \<noteq> []" and "ls = [] \<or> rs = []"
  shows "align_twosided_items gte Platform items sp ls rs = Inl ValueError"
  using assms by (auto simp: align_twosided_items_def py_max_eq)

lemma align_zero_spacewidth:
  assumes "Platform \<noteq> MSW" and "items \<noteq> []" and "ls \<noteq> []" and "rs \<noteq> []"
    and "spacewidth_of gte = 0"
  shows "align_twosided_items gte Platform items sp ls rs = Inl ZeroDivisionError"
  using assms by (simp add: align_twosided_items_def py_max_eq pad_loop_zero)

lemmas align_eval = align_twosided_items_def widths_of_def py_max_def spacewidth_of_def
  numspaces_of_def fixed_pitch_def MSW_def GTK_def padded_label_def text_width_def

subsection \<open>The specification's formula and the code's integer division\<close>

lemma spec_extraSpaces_div:
  "spec_extraSpaces sp mw w su = sp + (mw - w) div su"
proof -
  have "\<lfloor>real_of_int sp + real_of_int (mw - w) / real_of_int su\<rfloor>
        = sp + \<lfloor>real_of_int (mw - w) / real_of_int su\<rfloor>"
    by (simp add: add.commute)
  also have "\<lfloor>real_of_int (mw - w) / real_of_int su\<rfloor> = (mw - w) div su"
    by (rule floor_divide_of_int_eq)
  finally show ?thesis by (simp add: spec_extraSpaces_def)
qed

lemma widths_of_pairs:
  "widths_of gte sp (map fst pairs) (map snd pairs) = map (spec_width (text_width gte) sp) pairs"
  by (simp add: widths_of_def spec_width_def zip_map_fst_snd spaces_def case_prod_unfold)

lemma spacewidth_spec: "spacewidth_of gte = spec_spaceUnit (text_width gte)"
  by (simp add: spacewidth_of_def spec_spaceUnit_def)

lemma widths_le_Max:
  assumes "i < length ls" and "i < length rs"
  shows "widths_of gte sp ls rs ! i \<le> Max (set (widths_of gte sp ls rs))"
proof -
  have "widths_of gte sp ls rs ! i \<in> set (widths_of gte sp ls rs)"
    using assms by (intro nth_mem) simp
  then show ?thesis by simp
qed

lemma spacewidth_fixed_pitch [simp]: "spacewidth_of (fixed_pitch k) = k"
  by (simp add: spacewidth_of_def text_width_def fixed_pitch_def)

subsection \<open>Widths under an additive font metric\<close>

text \<open>When the width of a concatenation is the sum of the widths less the width of the
  empty string (a fixed border plus one advance per character), \<open>n\<close> spaces are
  \<open>n\<close> space widths wide, and a padded row is at most \<open>maxwidth\<close> and more than
  \<open>maxwidth - spacewidth\<close> wide.\<close>

lemma additive_spaces:
  assumes add: "\<forall>s t. text_width gte (s @ t) = text_width gte s + text_width gte t - text_width gte []"
  shows "text_width gte (replicate n CHR '' '')
           = text_width gte [] + int n * spacewidth_of gte"
proof (induction n)
  case 0
  show ?case by simp
next
  case (Suc n)
  define e where "e = text_width gte []"
  define s1 where "s1 = text_width gte [CHR '' '']"
  define su where "su = spacewidth_of gte"
  define rn where "rn = text_width gte (replicate n CHR '' '')"
  have "text_width gte ([CHR '' ''] @ [CHR '' '']) = s1 + s1 - e"
    unfolding s1_def e_def using add by blast
  then have su: "su = s1 - e"
    by (simp add: su_def spacewidth_of_def s1_def)
  have "text_width gte ([CHR '' ''] @ replicate n CHR '' '') = s1 + rn - e"
    unfolding s1_def e_def rn_def using add by blast
  then have step: "text_width gte (replicate (Suc n) CHR '' '') = s1 + rn - e"
    by simp
  have ih: "rn = e + int n * su"
    using Suc.IH by (simp add: rn_def e_def su_def)
  have "s1 + rn - e = e + int (Suc n) * su"
    unfolding ih su by (simp add: algebra_simps)
  with step show ?case by (simp add: e_def su_def)
qed

lemma additive_row:
  assumes add: "\<forall>s t. text_width gte (s @ t) = text_width gte s + text_width gte t - text_width gte []"
  shows "text_width gte (l @ spaces n @ r)
           = text_width gte l + text_width gte r - text_width gte []
             + int (nat n) * spacewidth_of gte"
proof -
  have "text_width gte (l @ spaces n @ r)
      = text_width gte l + text_width gte (spaces n @ r) - text_width gte []"
    using add by blast
  also have "text_width gte (spaces n @ r)
      = text_width gte (spaces n) + text_width gte r - text_width gte []"
    using add by blast
  also have "text_width gte (spaces n) = text_width gte [] + int (nat n) * spacewidth_of gte"
    unfolding spaces_def by (rule additive_spaces [OF add])
  finally show ?thesis by simp
qed

lemma padded_width_bounds:
  assumes add: "\<forall>s t. text_width gte (s @ t) = text_width gte s + text_width gte t - text_width gte []"
    and sw: "0 < spacewidth_of gte" and sp: "0 \<le> sp"
    and le: "text_width gte (l @ spaces sp @ r) \<le> mw"
  shows "mw - spacewidth_of gte < text_width gte (padded_label gte sp mw (spacewidth_of gte) l r)
       \<and> text_width gte (padded_label gte sp mw (spacewidth_of gte) l r) \<le> mw"
proof -
  define su where "su = spacewidth_of gte"
  define w where "w = text_width gte (l @ spaces sp @ r)"
  define q where "q = (mw - w) div su"
  define base where "base = text_width gte l + text_width gte r - text_width gte []"
  have su0: "0 < su" using sw by (simp add: su_def)
  have q0: "0 \<le> q" using le su0 by (simp add: q_def w_def pos_imp_zdiv_nonneg_iff)
  have w: "w = base + sp * su"
    using additive_row [OF add, of l sp r] sp by (simp add: w_def base_def su_def)
  have lab: "padded_label gte sp mw (spacewidth_of gte) l r = l @ spaces (sp + q) @ r"
    by (simp add: padded_label_def q_def w_def su_def)
  have "text_width gte (l @ spaces (sp + q) @ r) = base + int (nat (sp + q)) * su"
    unfolding base_def su_def by (rule additive_row [OF add])
  also have "int (nat (sp + q)) = sp + q" using sp q0 by simp
  finally have out: "text_width gte (l @ spaces (sp + q) @ r) = w + q * su"
    unfolding w by (simp add: algebra_simps)
  have split: "mw - w = q * su + (mw - w) mod su"
    unfolding q_def by simp
  have m0: "0 \<le> (mw - w) mod su" and m1: "(mw - w) mod su < su"
    using su0 by simp_all
  from split m0 m1 out have "mw - su < text_width gte (l @ spaces (sp + q) @ r)
       \<and> text_width gte (l @ spaces (sp + q) @ r) \<le> mw"
    by linarith
  then show ?thesis unfolding lab su_def .
qed

subsection \<open>The widget's methods\<close>

lemma update_annotation_frame:
  "combo_dlg (snd (update_annotation wx self)) = combo_dlg self
   \<and> orig_choices (snd (update_annotation wx self)) = orig_choices self
   \<and> IDs (snd (update_annotation wx self)) = IDs self"
  by (simp add: update_annotation_def Let_def split: sum.splits)

lemma SetValue_frame:
  "combo_dlg (snd (SetValue wx v self)) = set_Value wx v (combo_dlg self)
   \<and> orig_choices (snd (SetValue wx v self)) = orig_choices self
   \<and> IDs (snd (SetValue wx v self)) = IDs self"
  by (simp add: SetValue_def update_annotation_frame)

lemma SetItems_final_widget:
  "combo_dlg (snd (SetItems wx choices self))
     = set_Value wx (GetValue wx self) (set_Items wx (map fst choices) (combo_dlg self))
   \<and> orig_choices (snd (SetItems wx choices self)) = choices
   \<and> IDs (snd (SetItems wx choices self)) = IDs self"
proof -
  define self2 where
    "self2 = self\<lparr>orig_choices := choices,
                   combo_dlg := set_Items wx (map fst choices) (combo_dlg self)\<rparr>"
  define r where "r = SetValue wx (GetValue wx self) self2"
  have r: "combo_dlg (snd r) = set_Value wx (GetValue wx self) (combo_dlg self2)
           \<and> orig_choices (snd r) = orig_choices self2 \<and> IDs (snd r) = IDs self2"
    unfolding r_def by (rule SetValue_frame)
  have unfold: "SetItems wx choices self
      = (case r of (Some e, self3) \<Rightarrow> (Some e, self3)
                 | (None, self3) \<Rightarrow> update_annotation wx self3)"
    by (simp add: SetItems_def Let_def r_def self2_def GetValue_def)
  show ?thesis
  proof (cases r)
    case (Pair e self3)
    with r show ?thesis
      by (cases e) (simp_all add: unfold update_annotation_frame self2_def)
  qed
qed

lemma readonly_reads_back:
  assumes "v \<in> set names"
  shows "length (takeWhile (\<lambda>x. x \<noteq> v) names) < length names
       \<and> names ! length (takeWhile (\<lambda>x. x \<noteq> v) names) = v"
proof -
  have "takeWhile (\<lambda>x. x \<noteq> v) names \<noteq> names"
    using assms by (auto simp: takeWhile_eq_all_conv)
  then have less: "length (takeWhile (\<lambda>x. x \<noteq> v) names) < length names"
    using length_takeWhile_le [of "\<lambda>x. x \<noteq> v" names]
    by (metis le_neq_implies_less takeWhile_eq_take take_all)
  from nth_length_takeWhile [OF less] less show ?thesis by simp
qed

lemma relabel_prefix_frame:
  assumes out: "out = map f (take (length items) pairs) @ drop (length pairs) items"
  shows "length out = length items
       \<and> take (min (length items) (length pairs)) out
           = map f (take (min (length items) (length pairs)) pairs)
       \<and> drop (min (length items) (length pairs)) out
           = drop (min (length items) (length pairs)) items"
proof (cases "length items \<le> length pairs")
  case True
  then have k: "min (length items) (length pairs) = length items" by simp
  from True have "drop (length pairs) items = []" by simp
  with out have "out = map f (take (length items) pairs)" by simp
  with True show ?thesis unfolding k by simp
next
  case False
  then have k: "min (length items) (length pairs) = length pairs" by simp
  from False have "take (length items) pairs = pairs" by simp
  with out have "out = map f pairs @ drop (length pairs) items" by simp
  with False show ?thesis unfolding k by simp
qed

subsection \<open>The claims\<close>

text \<open>
  Claim C5. Called with no items (the empty pair sequence), the function leaves through
  the guard on line 20 and returns the empty sequence, for every spacing, platform and
  measuring function; \<open>max\<close> is never evaluated, so no error arises.
\<close>

theorem empty_input_returns_empty:
  "align_twosided_items GetTextExtent Platform [] min_spacing left_texts right_texts = Inr []"
  by (simp add: align_twosided_items_def)

text \<open>
  Claim C4. On Windows (TabDelimited mode), with one item per pair, row \<open>i\<close> of the result
  is exactly \<open>left_i + TAB + right_i\<close>; the spacing and the measuring function have no
  effect on the result.
\<close>

theorem tab_delimited_rows:
  assumes "length left_texts = length items" and "length right_texts = length items"
  shows "align_twosided_items GetTextExtent MSW items min_spacing left_texts right_texts =
           Inr (map (\<lambda>(left, right). left @ [TAB] @ right) (zip left_texts right_texts))
       \<and> align_twosided_items GetTextExtent' MSW items min_spacing' left_texts right_texts =
           align_twosided_items GetTextExtent MSW items min_spacing left_texts right_texts"
  using assms by (simp add: align_msw_eq)

theorem tab_delimited_rows_witness:
  "length [''Foo''] = length [''filler''] \<and> length [''Bar#01''] = length [''filler'']
   \<and> align_twosided_items (fixed_pitch 1) MSW [''filler''] 8 [''Foo''] [''Bar#01'']
       = Inr [''Foo'' @ [TAB] @ ''Bar#01'']"
  using tab_delimited_rows [where left_texts = "[''Foo'']" and items = "[''filler'']"
      and right_texts = "[''Bar#01'']" and GetTextExtent = "fixed_pitch 1" and min_spacing = 8]
  by simp

text \<open>
  Claim C6. With one item per pair, in either mode: the call returns whenever the platform
  is Windows or the space width is not zero, and whenever it returns, the result has as many
  labels as there are pairs and label \<open>i\<close> is computed from pair \<open>i\<close> alone (in
  SpacePadded mode together with the two aggregates, the maximal width and the space
  width), at index \<open>i\<close>.
\<close>

theorem length_and_order_preserved:
  assumes "length left_texts = length items" and "length right_texts = length items"
  shows "(Platform = MSW \<or> spacewidth_of GetTextExtent \<noteq> 0 \<longrightarrow>
            (\<exists>out. align_twosided_items GetTextExtent Platform items min_spacing
                      left_texts right_texts = Inr out))
       \<and> (\<forall>out. align_twosided_items GetTextExtent Platform items min_spacing
                      left_texts right_texts = Inr out \<longrightarrow>
            length out = length items
            \<and> (\<forall>i<length items. out ! i =
                  (if Platform = MSW then left_texts ! i @ [TAB] @ right_texts ! i
                   else padded_label GetTextExtent min_spacing
                          (Max (set (widths_of GetTextExtent min_spacing left_texts right_texts)))
                          (spacewidth_of GetTextExtent) (left_texts ! i) (right_texts ! i))))"
proof (cases "Platform = MSW")
  case True
  with assms show ?thesis by (auto simp: align_msw_eq)
next
  case notmsw: False
  show ?thesis
  proof (cases "items = []")
    case True
    then show ?thesis by (simp add: align_twosided_items_def)
  next
    case False
    with assms have ne: "left_texts \<noteq> []" "right_texts \<noteq> []" by auto
    show ?thesis
    proof (cases "spacewidth_of GetTextExtent = 0")
      case True
      with notmsw False ne show ?thesis by (simp add: align_zero_spacewidth)
    next
      case sw: False
      from assms notmsw ne sw show ?thesis by (auto simp: align_padded_eq)
    qed
  qed
qed

theorem length_and_order_preserved_witness:
  "length [''Foo'', ''Ba''] = length [''filler'', ''filler'']
   \<and> length [''Bar#01'', ''B''] = length [''filler'', ''filler'']
   \<and> (GTK = MSW \<or> spacewidth_of (fixed_pitch 1) \<noteq> 0)
   \<and> align_twosided_items (fixed_pitch 1) GTK [''filler'', ''filler''] 8
         [''Foo'', ''Ba''] [''Bar#01'', ''B'']
       = Inr [''Foo'' @ spaces 8 @ ''Bar#01'', ''Ba'' @ spaces 14 @ ''B'']
   \<and> length [''Foo'' @ spaces 8 @ ''Bar#01'', ''Ba'' @ spaces 14 @ ''B'']
       = length [''filler'', ''filler'']
   \<and> (1::nat) < length [''filler'', ''filler'']
   \<and> [''Foo'' @ spaces 8 @ ''Bar#01'', ''Ba'' @ spaces 14 @ ''B''] ! 1
       = padded_label (fixed_pitch 1) 8
           (Max (set (widths_of (fixed_pitch 1) 8 [''Foo'', ''Ba''] [''Bar#01'', ''B''])))
           (spacewidth_of (fixed_pitch 1)) ([''Foo'', ''Ba''] ! 1) ([''Bar#01'', ''B''] ! 1)"
  using length_and_order_preserved [where left_texts = "[''Foo'', ''Ba'']"
      and items = "[''filler'', ''filler'']" and right_texts = "[''Bar#01'', ''B'']"
      and GetTextExtent = "fixed_pitch 1" and min_spacing = 8 and Platform = GTK]
  by (simp add: align_eval)

text \<open>
  Claim C1, as amended. In SpacePadded mode (any platform but Windows), for a non-empty
  sequence of pairs with one item each, a non-negative minimal spacing and a measuring
  function whose space unit \<open>width("  ") - width(" ")\<close> is not zero, the result is exactly
  the specification's algorithm: row \<open>i\<close> is \<open>left\<close>, then
  \<open>floor(minSpacing + (maxWidth - w) / spaceUnit)\<close> spaces, then \<open>right\<close>.
\<close>

theorem space_padded_algorithm:
  assumes "pairs \<noteq> []" and "0 \<le> min_spacing" and "Platform \<noteq> MSW"
    and "length items = length pairs"
    and "spec_spaceUnit (text_width GetTextExtent) \<noteq> 0"
  shows "align_twosided_items GetTextExtent Platform items min_spacing
           (map fst pairs) (map snd pairs)
         = Inr (spec_SpacePadded (text_width GetTextExtent) min_spacing pairs)"
proof -
  have "align_twosided_items GetTextExtent Platform items min_spacing
           (map fst pairs) (map snd pairs)
        = Inr (map (\<lambda>(l, r). padded_label GetTextExtent min_spacing
                     (Max (set (widths_of GetTextExtent min_spacing (map fst pairs) (map snd pairs))))
                     (spacewidth_of GetTextExtent) l r) pairs)"
    using assms by (simp add: align_padded_eq zip_map_fst_snd spacewidth_spec)
  also have "\<dots> = Inr (spec_SpacePadded (text_width GetTextExtent) min_spacing pairs)"
    by (simp add: spec_SpacePadded_def padded_label_def spec_extraSpaces_div widths_of_pairs
        spec_maxWidth_def spec_width_def spacewidth_spec spaces_def case_prod_unfold)
  finally show ?thesis .
qed

theorem space_padded_algorithm_witness:
  "[(''Foo'', ''Bar#01''), (''Ba'', ''B'')] \<noteq> [] \<and> (0::int) \<le> 8 \<and> GTK \<noteq> MSW
   \<and> length [''filler'', ''filler''] = length [(''Foo'', ''Bar#01''), (''Ba'', ''B'')]
   \<and> spec_spaceUnit (text_width (fixed_pitch 1)) \<noteq> 0
   \<and> align_twosided_items (fixed_pitch 1) GTK [''filler'', ''filler''] 8
         (map fst [(''Foo'', ''Bar#01''), (''Ba'', ''B'')])
         (map snd [(''Foo'', ''Bar#01''), (''Ba'', ''B'')])
       = Inr (spec_SpacePadded (text_width (fixed_pitch 1)) 8
                [(''Foo'', ''Bar#01''), (''Ba'', ''B'')])
   \<and> spec_SpacePadded (text_width (fixed_pitch 1)) 8 [(''Foo'', ''Bar#01''), (''Ba'', ''B'')]
       = [''Foo'' @ replicate 8 CHR '' '' @ ''Bar#01'', ''Ba'' @ replicate 14 CHR '' '' @ ''B'']"
  using space_padded_algorithm [where pairs = "[(''Foo'', ''Bar#01''), (''Ba'', ''B'')]"
      and items = "[''filler'', ''filler'']" and GetTextExtent = "fixed_pitch 1"
      and min_spacing = 8 and Platform = GTK]
  by (simp add: spec_SpacePadded_def spec_extraSpaces_div spec_maxWidth_def spec_width_def
      spec_spaceUnit_def text_width_def fixed_pitch_def GTK_def MSW_def)

text \<open>
  Without the restriction on the space unit the statement fails: with a font in which
  every string is 0 pixels wide the call raises \<open>ZeroDivisionError\<close> and sets no label.
\<close>

theorem space_padded_zero_space_unit_counterexample:
  "align_twosided_items (fixed_pitch 0) GTK [''filler''] 8
       (map fst [(''Foo'', ''Bar#01'')]) (map snd [(''Foo'', ''Bar#01'')])
     = Inl ZeroDivisionError
   \<and> align_twosided_items (fixed_pitch 0) GTK [''filler''] 8
       (map fst [(''Foo'', ''Bar#01'')]) (map snd [(''Foo'', ''Bar#01'')])
     \<noteq> Inr (spec_SpacePadded (text_width (fixed_pitch 0)) 8 [(''Foo'', ''Bar#01'')])"
  by (simp add: align_eval)

text \<open>
  Claim C2, as amended. The function validates nothing and has no InvalidArgument
  condition. Whatever the lengths of the two text sequences and whatever the sign of the
  minimal spacing, on Windows always and elsewhere whenever both text sequences are
  non-empty and the space width is not zero, it returns normally with every item still
  present, and it truncates to the shortest sequence: with \<open>k\<close> the least of the three
  lengths, the first \<open>k\<close> labels are those of the first \<open>k\<close> pairs, and the items from
  \<open>k\<close> on are as they were.
\<close>

theorem no_argument_validation:
  assumes "Platform = MSW
         \<or> (left_texts \<noteq> [] \<and> right_texts \<noteq> [] \<and> spacewidth_of GetTextExtent \<noteq> 0)"
  shows "\<exists>out. align_twosided_items GetTextExtent Platform items min_spacing
                  left_texts right_texts = Inr out
           \<and> length out = length items
           \<and> take (min (length items) (min (length left_texts) (length right_texts))) out
               = map (\<lambda>(left, right).
                        if Platform = MSW then left @ [TAB] @ right
                        else padded_label GetTextExtent min_spacing
                               (Max (set (widths_of GetTextExtent min_spacing
                                            left_texts right_texts)))
                               (spacewidth_of GetTextExtent) left right)
                   (take (min (length items) (min (length left_texts) (length right_texts)))
                      (zip left_texts right_texts))
           \<and> drop (min (length items) (min (length left_texts) (length right_texts))) out
               = drop (min (length items) (min (length left_texts) (length right_texts))) items"
proof -
  let ?f = "\<lambda>(left, right).
              if Platform = MSW then left @ [TAB] @ right
              else padded_label GetTextExtent min_spacing
                     (Max (set (widths_of GetTextExtent min_spacing left_texts right_texts)))
                     (spacewidth_of GetTextExtent) left right"
  let ?out = "map ?f (take (length items) (zip left_texts right_texts))
                @ drop (length (zip left_texts right_texts)) items"
  have res: "align_twosided_items GetTextExtent Platform items min_spacing
               left_texts right_texts = Inr ?out"
  proof (cases "Platform = MSW")
    case True
    then show ?thesis by (simp add: align_msw_eq)
  next
    case False
    with assms show ?thesis by (simp add: align_padded_eq)
  qed
  from relabel_prefix_frame [of ?out ?f items "zip left_texts right_texts"]
  have "length ?out = length items
      \<and> take (min (length items) (min (length left_texts) (length right_texts))) ?out
          = map ?f (take (min (length items) (min (length left_texts) (length right_texts)))
                      (zip left_texts right_texts))
      \<and> drop (min (length items) (min (length left_texts) (length right_texts))) ?out
          = drop (min (length items) (min (length left_texts) (length right_texts))) items"
    by simp
  with res show ?thesis by blast
qed

theorem no_argument_validation_witness:
  "(GTK = MSW \<or> ([''a'', ''b''] \<noteq> [] \<and> [''c''] \<noteq> [] \<and> spacewidth_of (fixed_pitch 1) \<noteq> 0))
   \<and> length [''a'', ''b''] \<noteq> length [''c''] \<and> (- 3 :: int) < 0
   \<and> min (length [''x'', ''y'', ''z'']) (min (length [''a'', ''b'']) (length [''c''])) = 1
   \<and> align_twosided_items (fixed_pitch 1) GTK [''x'', ''y'', ''z''] (- 3) [''a'', ''b''] [''c'']
       = Inr [''ac'', ''y'', ''z'']
   \<and> length [''ac'', ''y'', ''z''] = length [''x'', ''y'', ''z'']
   \<and> take 1 [''ac'', ''y'', ''z'']
       = map (\<lambda>(left, right).
                if GTK = MSW then left @ [TAB] @ right
                else padded_label (fixed_pitch 1) (- 3)
                       (Max (set (widths_of (fixed_pitch 1) (- 3) [''a'', ''b''] [''c''])))
                       (spacewidth_of (fixed_pitch 1)) left right)
           (take 1 (zip [''a'', ''b''] [''c'']))
   \<and> drop 1 [''ac'', ''y'', ''z''] = drop 1 [''x'', ''y'', ''z'']"
  using no_argument_validation [where Platform = GTK and left_texts = "[''a'', ''b'']"
      and right_texts = "[''c'']" and GetTextExtent = "fixed_pitch 1"
      and items = "[''x'', ''y'', ''z'']" and min_spacing = "- 3"]
  by (simp add: align_eval spaces_def)

text \<open>
  Sequences of different lengths are not rejected: with two left texts and one right
  text the call returns normally, having set one label and left the second item alone.
\<close>

theorem mismatched_lengths_accepted_counterexample:
  "length [''a'', ''b''] \<noteq> length [''c'']
   \<and> align_twosided_items (fixed_pitch 1) GTK [''x'', ''y''] 8 [''a'', ''b''] [''c'']
       = Inr [''a'' @ spaces 8 @ ''c'', ''y'']"
  by (simp add: align_eval)

text \<open>
  Claim C3, as amended. For a measuring function that is additive over concatenation (a
  fixed border plus one advance per character, \<open>len\<close> among them) with a positive space
  unit, a non-negative minimal spacing and one item per pair, every output row is the left
  text, the computed number of spaces, then the right text; the width of the row is the
  offset at which its right text starts plus the width of that right text (less the
  border); and this right edge is at most \<open>maxWidth\<close> and more than
  \<open>maxWidth - spaceUnit\<close>. So the right texts are right justified: the right edges of any
  two rows differ by less than one space width, and each right text starts within one
  space width below \<open>maxWidth\<close> less its own width.
\<close>

theorem right_edges_aligned:
  assumes "\<forall>s t. text_width GetTextExtent (s @ t)
             = text_width GetTextExtent s + text_width GetTextExtent t - text_width GetTextExtent []"
    and "0 < spacewidth_of GetTextExtent" and "0 \<le> min_spacing" and "Platform \<noteq> MSW"
    and "length left_texts = length items" and "length right_texts = length items"
  shows "\<exists>out. align_twosided_items GetTextExtent Platform items min_spacing
                  left_texts right_texts = Inr out
           \<and> length out = length items
           \<and> (\<forall>i<length items. \<exists>numspaces.
                 numspaces_of min_spacing
                   (Max (set (widths_of GetTextExtent min_spacing left_texts right_texts)))
                   (widths_of GetTextExtent min_spacing left_texts right_texts ! i)
                   (spacewidth_of GetTextExtent) = Inr numspaces
               \<and> out ! i = left_texts ! i @ spaces numspaces @ right_texts ! i
               \<and> text_width GetTextExtent (out ! i)
                   = text_width GetTextExtent (left_texts ! i @ spaces numspaces)
                     + (text_width GetTextExtent (right_texts ! i) - text_width GetTextExtent [])
               \<and> Max (set (widths_of GetTextExtent min_spacing left_texts right_texts))
                     - spacewidth_of GetTextExtent
                   < text_width GetTextExtent (left_texts ! i @ spaces numspaces)
                     + (text_width GetTextExtent (right_texts ! i) - text_width GetTextExtent [])
               \<and> text_width GetTextExtent (left_texts ! i @ spaces numspaces)
                     + (text_width GetTextExtent (right_texts ! i) - text_width GetTextExtent [])
                   \<le> Max (set (widths_of GetTextExtent min_spacing left_texts right_texts)))
           \<and> (\<forall>i<length items. \<forall>j<length items.
                 \<bar>text_width GetTextExtent (out ! i) - text_width GetTextExtent (out ! j)\<bar>
                   < spacewidth_of GetTextExtent)"
proof (cases "items = []")
  case True
  then show ?thesis by (simp add: align_twosided_items_def)
next
  case False
  with assms have ne: "left_texts \<noteq> []" "right_texts \<noteq> []" by auto
  let ?tw = "text_width GetTextExtent"
  let ?su = "spacewidth_of GetTextExtent"
  let ?ws = "widths_of GetTextExtent min_spacing left_texts right_texts"
  let ?out = "map (\<lambda>(l, r). padded_label GetTextExtent min_spacing (Max (set ?ws)) ?su l r)
                (zip left_texts right_texts)"
  have su0: "?su \<noteq> 0" using assms(2) by simp
  have res: "align_twosided_items GetTextExtent Platform items min_spacing
                  left_texts right_texts = Inr ?out"
    using assms ne by (simp add: align_padded_eq)
  have len: "length ?out = length items" using assms by simp
  have row: "\<exists>numspaces.
        numspaces_of min_spacing (Max (set ?ws)) (?ws ! i) ?su = Inr numspaces
      \<and> ?out ! i = left_texts ! i @ spaces numspaces @ right_texts ! i
      \<and> ?tw (?out ! i) = ?tw (left_texts ! i @ spaces numspaces)
                           + (?tw (right_texts ! i) - ?tw [])
      \<and> Max (set ?ws) - ?su < ?tw (left_texts ! i @ spaces numspaces)
                                 + (?tw (right_texts ! i) - ?tw [])
      \<and> ?tw (left_texts ! i @ spaces numspaces) + (?tw (right_texts ! i) - ?tw [])
           \<le> Max (set ?ws)"
    and edge: "Max (set ?ws) - ?su < ?tw (?out ! i) \<and> ?tw (?out ! i) \<le> Max (set ?ws)"
    if i: "i < length items" for i
  proof -
    define n where "n = min_spacing + (Max (set ?ws) - ?ws ! i) div ?su"
    have ns: "numspaces_of min_spacing (Max (set ?ws)) (?ws ! i) ?su = Inr n"
      using su0 by (simp add: numspaces_of_def n_def)
    have wi: "?ws ! i = ?tw (left_texts ! i @ spaces min_spacing @ right_texts ! i)"
      using i assms by (simp add: widths_of_nth)
    have lab: "?out ! i = padded_label GetTextExtent min_spacing (Max (set ?ws)) ?su
                            (left_texts ! i) (right_texts ! i)"
      using i assms by simp
    have shape: "?out ! i = left_texts ! i @ spaces n @ right_texts ! i"
      unfolding lab by (simp add: padded_label_def n_def wi)
    have "?tw ((left_texts ! i @ spaces n) @ right_texts ! i)
            = ?tw (left_texts ! i @ spaces n) + ?tw (right_texts ! i) - ?tw []"
      using assms(1) by blast
    then have split: "?tw (?out ! i) = ?tw (left_texts ! i @ spaces n)
                                        + (?tw (right_texts ! i) - ?tw [])"
      unfolding shape by simp
    have "?tw (left_texts ! i @ spaces min_spacing @ right_texts ! i) \<le> Max (set ?ws)"
      using widths_le_Max [of i left_texts right_texts GetTextExtent min_spacing] i assms
      by (simp add: widths_of_nth)
    from padded_width_bounds [OF assms(1) assms(2) assms(3) this]
    show e: "Max (set ?ws) - ?su < ?tw (?out ! i) \<and> ?tw (?out ! i) \<le> Max (set ?ws)"
      unfolding lab .
    from ns shape split e
    show "\<exists>numspaces.
        numspaces_of min_spacing (Max (set ?ws)) (?ws ! i) ?su = Inr numspaces
      \<and> ?out ! i = left_texts ! i @ spaces numspaces @ right_texts ! i
      \<and> ?tw (?out ! i) = ?tw (left_texts ! i @ spaces numspaces)
                           + (?tw (right_texts ! i) - ?tw [])
      \<and> Max (set ?ws) - ?su < ?tw (left_texts ! i @ spaces numspaces)
                                 + (?tw (right_texts ! i) - ?tw [])
      \<and> ?tw (left_texts ! i @ spaces numspaces) + (?tw (right_texts ! i) - ?tw [])
           \<le> Max (set ?ws)"
      by (intro exI [of _ n]) simp
  qed
  have d: "\<bar>?tw (?out ! i) - ?tw (?out ! j)\<bar> < ?su"
    if "i < length items" and "j < length items" for i j
    using edge [OF that(1)] edge [OF that(2)] by linarith
  from res len row d show ?thesis by blast
qed

theorem right_edges_aligned_witness:
  "(\<forall>s t. text_width (fixed_pitch 1) (s @ t)
       = text_width (fixed_pitch 1) s + text_width (fixed_pitch 1) t - text_width (fixed_pitch 1) [])
   \<and> 0 < spacewidth_of (fixed_pitch 1) \<and> (0::int) \<le> 8 \<and> GTK \<noteq> MSW
   \<and> length [''a'', ''a''] = length [''filler'', ''filler'']
   \<and> length [''b'', ''bbbbb''] = length [''filler'', ''filler'']
   \<and> (0::nat) < length [''filler'', ''filler''] \<and> (1::nat) < length [''filler'', ''filler'']
   \<and> align_twosided_items (fixed_pitch 1) GTK [''filler'', ''filler''] 8
         [''a'', ''a''] [''b'', ''bbbbb'']
       = Inr [''a'' @ spaces 12 @ ''b'', ''a'' @ spaces 8 @ ''bbbbb'']
   \<and> Max (set (widths_of (fixed_pitch 1) 8 [''a'', ''a''] [''b'', ''bbbbb''])) = 14
   \<and> numspaces_of 8 14 (widths_of (fixed_pitch 1) 8 [''a'', ''a''] [''b'', ''bbbbb''] ! 0)
        (spacewidth_of (fixed_pitch 1)) = Inr 12
   \<and> text_width (fixed_pitch 1) (''a'' @ spaces 12)
       + (text_width (fixed_pitch 1) ''b'' - text_width (fixed_pitch 1) []) = 14
   \<and> text_width (fixed_pitch 1) (''a'' @ spaces 8)
       + (text_width (fixed_pitch 1) ''bbbbb'' - text_width (fixed_pitch 1) []) = 14
   \<and> text_width (fixed_pitch 1) (''a'' @ spaces 12 @ ''b'') = 14
   \<and> text_width (fixed_pitch 1) (''a'' @ spaces 8 @ ''bbbbb'') = 14"
  using right_edges_aligned [where GetTextExtent = "fixed_pitch 1" and min_spacing = 8
      and Platform = GTK and left_texts = "[''a'', ''a'']" and right_texts = "[''b'', ''bbbbb'']"
      and items = "[''filler'', ''filler'']"]
  by (simp add: align_eval spaces_def)

text \<open>
  The right texts themselves do not start at a common offset: with \<open>measureText = len\<close>
  and right texts of 1 and 5 characters, the two right texts start 4 space widths apart,
  and in the second row the left text with its padding ends more than one space width
  short of the maximal width.
\<close>


theorem right_column_starts_differ_counterexample:
  "align_twosided_items (fixed_pitch 1) GTK [''filler'', ''filler''] 8
         [''a'', ''a''] [''b'', ''bbbbb'']
       = Inr [''a'' @ spaces 12 @ ''b'', ''a'' @ spaces 8 @ ''bbbbb'']
   \<and> \<not> \<bar>text_width (fixed_pitch 1) (''a'' @ spaces 12)
          - text_width (fixed_pitch 1) (''a'' @ spaces 8)\<bar> < spacewidth_of (fixed_pitch 1)
   \<and> \<not> Max (set (widths_of (fixed_pitch 1) 8 [''a'', ''a''] [''b'', ''bbbbb'']))
          - spacewidth_of (fixed_pitch 1)
        \<le> text_width (fixed_pitch 1) (''a'' @ spaces 8)"
  by (simp add: align_eval spaces_def)

text \<open>
  Claim C7. With a measuring function proportional to the character count
  (\<open>k\<close> pixels per character, \<open>k > 0\<close>; \<open>k = 1\<close> is \<open>len\<close>), in SpacePadded mode with
  one item per pair: if pair \<open>a\<close> has a strictly shorter left text than pair \<open>b\<close> and a
  right text of the same length, the number of spaces computed for \<open>a\<close> is at least the
  number computed for \<open>b\<close>, and these are the numbers of spaces in the two labels.
\<close>


theorem space_padded_monotone:
  assumes "0 < k" and "Platform \<noteq> MSW"
    and "length left_texts = length items" and "length right_texts = length items"
    and "a < length items" and "b < length items"
    and "length (left_texts ! a) < length (left_texts ! b)"
    and "length (right_texts ! a) = length (right_texts ! b)"
  shows "\<exists>maxwidth numspaces_a numspaces_b out.
           py_max (widths_of (fixed_pitch k) min_spacing left_texts right_texts) = Inr maxwidth
         \<and> numspaces_of min_spacing maxwidth
               (widths_of (fixed_pitch k) min_spacing left_texts right_texts ! a)
               (spacewidth_of (fixed_pitch k)) = Inr numspaces_a
         \<and> numspaces_of min_spacing maxwidth
               (widths_of (fixed_pitch k) min_spacing left_texts right_texts ! b)
               (spacewidth_of (fixed_pitch k)) = Inr numspaces_b
         \<and> numspaces_b \<le> numspaces_a
         \<and> align_twosided_items (fixed_pitch k) Platform items min_spacing
               left_texts right_texts = Inr out
         \<and> out ! a = left_texts ! a @ spaces numspaces_a @ right_texts ! a
         \<and> out ! b = left_texts ! b @ spaces numspaces_b @ right_texts ! b"
proof -
  let ?ws = "widths_of (fixed_pitch k) min_spacing left_texts right_texts"
  from assms have ne: "left_texts \<noteq> []" "right_texts \<noteq> []" by auto
  have wa: "?ws ! a = k * int (length (left_texts ! a) + nat min_spacing + length (right_texts ! a))"
    using assms by (simp add: widths_of_nth text_width_def fixed_pitch_def spaces_def)
  have wb: "?ws ! b = k * int (length (left_texts ! b) + nat min_spacing + length (right_texts ! b))"
    using assms by (simp add: widths_of_nth text_width_def fixed_pitch_def spaces_def)
  have "?ws ! a \<le> ?ws ! b"
    unfolding wa wb using assms(1,7,8) by (intro mult_left_mono) simp_all
  then have "Max (set ?ws) - ?ws ! b \<le> Max (set ?ws) - ?ws ! a" by simp
  then have mono: "(Max (set ?ws) - ?ws ! b) div k \<le> (Max (set ?ws) - ?ws ! a) div k"
    using assms(1) by (rule zdiv_mono1)
  have k0: "k \<noteq> 0" using assms(1) by simp
  show ?thesis
    using assms ne k0 mono
    by (simp add: py_max_eq numspaces_of_def align_padded_eq padded_label_def
        widths_of_nth [symmetric])
qed

theorem space_padded_monotone_witness:
  "(0::int) < 1 \<and> GTK \<noteq> MSW
   \<and> length [''Foo'', ''Ba''] = length [''filler'', ''filler'']
   \<and> length [''#01'', ''#02''] = length [''filler'', ''filler'']
   \<and> (1::nat) < length [''filler'', ''filler''] \<and> (0::nat) < length [''filler'', ''filler'']
   \<and> length ([''Foo'', ''Ba''] ! 1) < length ([''Foo'', ''Ba''] ! 0)
   \<and> length ([''#01'', ''#02''] ! 1) = length ([''#01'', ''#02''] ! 0)
   \<and> py_max (widths_of (fixed_pitch 1) 8 [''Foo'', ''Ba''] [''#01'', ''#02'']) = Inr 14
   \<and> numspaces_of 8 14 (widths_of (fixed_pitch 1) 8 [''Foo'', ''Ba''] [''#01'', ''#02''] ! 1)
        (spacewidth_of (fixed_pitch 1)) = Inr 9
   \<and> numspaces_of 8 14 (widths_of (fixed_pitch 1) 8 [''Foo'', ''Ba''] [''#01'', ''#02''] ! 0)
        (spacewidth_of (fixed_pitch 1)) = Inr 8
   \<and> align_twosided_items (fixed_pitch 1) GTK [''filler'', ''filler''] 8
        [''Foo'', ''Ba''] [''#01'', ''#02'']
       = Inr [''Foo'' @ spaces 8 @ ''#01'', ''Ba'' @ spaces 9 @ ''#02'']"
  using space_padded_monotone [where k = 1 and Platform = GTK
      and left_texts = "[''Foo'', ''Ba'']" and right_texts = "[''#01'', ''#02'']"
      and items = "[''filler'', ''filler'']" and a = 1 and b = 0 and min_spacing = 8]
  by (simp add: align_eval spaces_def)

text \<open>
  Claim C8, as amended. When the space unit is negative, the SpacePadded branch raises
  nothing and returns a label for every pair. Nothing is clamped to the minimal spacing:
  the number of spaces of a row is \<open>min_spacing + (maxwidth - w) div spacewidth\<close>, which is
  at most \<open>min_spacing\<close>, and a count below zero gives no space at all.
\<close>


theorem negative_space_unit_returns:
  assumes "spacewidth_of GetTextExtent < 0" and "Platform \<noteq> MSW"
    and "length left_texts = length items" and "length right_texts = length items"
  shows "\<exists>out. align_twosided_items GetTextExtent Platform items min_spacing
                  left_texts right_texts = Inr out
           \<and> length out = length items
           \<and> (\<forall>i<length items.
                 \<exists>numspaces\<le>min_spacing.
                   numspaces_of min_spacing
                     (Max (set (widths_of GetTextExtent min_spacing left_texts right_texts)))
                     (widths_of GetTextExtent min_spacing left_texts right_texts ! i)
                     (spacewidth_of GetTextExtent) = Inr numspaces
                   \<and> out ! i = left_texts ! i @ spaces numspaces @ right_texts ! i)"
proof (cases "items = []")
  case True
  then show ?thesis by (simp add: align_twosided_items_def)
next
  case False
  with assms have ne: "left_texts \<noteq> []" "right_texts \<noteq> []" by auto
  let ?ws = "widths_of GetTextExtent min_spacing left_texts right_texts"
  let ?sw = "spacewidth_of GetTextExtent"
  have q: "(Max (set ?ws)
             - text_width GetTextExtent (left_texts ! i @ spaces min_spacing @ right_texts ! i))
            div ?sw \<le> 0" if "i < length items" for i
  proof -
    have "0 \<le> Max (set ?ws)
             - text_width GetTextExtent (left_texts ! i @ spaces min_spacing @ right_texts ! i)"
      using widths_le_Max [of i left_texts right_texts GetTextExtent min_spacing] that assms
      by (simp add: widths_of_nth)
    with assms(1) show ?thesis by (simp add: div_nonneg_neg_le0)
  qed
  from assms ne show ?thesis
    by (auto simp: align_padded_eq numspaces_of_def padded_label_def widths_of_nth q)
qed

theorem negative_space_unit_returns_witness:
  "spacewidth_of (fixed_pitch (- 1)) < 0 \<and> GTK \<noteq> MSW
   \<and> length [''Foo'', ''Ba''] = length [''filler'', ''filler'']
   \<and> length [''Bar#01'', ''B''] = length [''filler'', ''filler'']
   \<and> (0::nat) < length [''filler'', ''filler'']
   \<and> align_twosided_items (fixed_pitch (- 1)) GTK [''filler'', ''filler''] 8
         [''Foo'', ''Ba''] [''Bar#01'', ''B'']
       = Inr [''Foo'' @ spaces 2 @ ''Bar#01'', ''Ba'' @ spaces 8 @ ''B'']
   \<and> numspaces_of 8
        (Max (set (widths_of (fixed_pitch (- 1)) 8 [''Foo'', ''Ba''] [''Bar#01'', ''B''])))
        (widths_of (fixed_pitch (- 1)) 8 [''Foo'', ''Ba''] [''Bar#01'', ''B''] ! 0)
        (spacewidth_of (fixed_pitch (- 1))) = Inr 2
   \<and> (2::int) \<le> 8"
  using negative_space_unit_returns [where GetTextExtent = "fixed_pitch (- 1)"
      and Platform = GTK and left_texts = "[''Foo'', ''Ba'']"
      and right_texts = "[''Bar#01'', ''B'']" and items = "[''filler'', ''filler'']"
      and min_spacing = 8]
  by (simp add: align_eval spaces_def)

text \<open>
  With a space unit of zero the statement fails: the division on line 33 raises
  \<open>ZeroDivisionError\<close> in the first iteration, and no label is set.
\<close>


theorem zero_space_unit_raises_counterexample:
  "spacewidth_of (fixed_pitch 0) \<le> 0
   \<and> align_twosided_items (fixed_pitch 0) GTK [''filler'', ''filler''] 8
         [''Foo'', ''Ba''] [''Bar#01'', ''B'']
       = Inl ZeroDivisionError"
  by (simp add: align_eval)

text \<open>
  Claim C9, as amended. Called with at least one item, on Windows, or elsewhere with
  both text sequences non-empty and a space width other than zero, the function raises
  nothing, sets the labels of the items whose index is below the lengths of both text
  sequences, and leaves every other item with the label it had.
\<close>


theorem truncation_frame:
  assumes "items \<noteq> []"
    and "Platform = MSW
         \<or> (left_texts \<noteq> [] \<and> right_texts \<noteq> [] \<and> spacewidth_of GetTextExtent \<noteq> 0)"
  shows "\<exists>out. align_twosided_items GetTextExtent Platform items min_spacing
                  left_texts right_texts = Inr out
           \<and> length out = length items
           \<and> (\<forall>i. i < length items \<and> i < length left_texts \<and> i < length right_texts \<longrightarrow>
                 out ! i =
                  (if Platform = MSW then left_texts ! i @ [TAB] @ right_texts ! i
                   else padded_label GetTextExtent min_spacing
                          (Max (set (widths_of GetTextExtent min_spacing left_texts right_texts)))
                          (spacewidth_of GetTextExtent) (left_texts ! i) (right_texts ! i)))
           \<and> (\<forall>i. i < length items \<and> (length left_texts \<le> i \<or> length right_texts \<le> i) \<longrightarrow>
                 out ! i = items ! i)"
proof (cases "Platform = MSW")
  case True
  then show ?thesis
    by (auto simp: align_msw_eq nth_append min_def)
next
  case False
  with assms(2) show ?thesis
    by (auto simp: align_padded_eq nth_append min_def)
qed

theorem truncation_frame_witness:
  "[''x'', ''y'', ''z''] \<noteq> []
   \<and> (GTK = MSW \<or> ([''a'', ''b''] \<noteq> [] \<and> [''c''] \<noteq> [] \<and> spacewidth_of (fixed_pitch 1) \<noteq> 0))
   \<and> (0::nat) < length [''x'', ''y'', ''z''] \<and> (0::nat) < length [''a'', ''b'']
   \<and> (0::nat) < length [''c'']
   \<and> (2::nat) < length [''x'', ''y'', ''z''] \<and> length [''c''] \<le> (2::nat)
   \<and> align_twosided_items (fixed_pitch 1) GTK [''x'', ''y'', ''z''] 8 [''a'', ''b''] [''c'']
       = Inr [''a'' @ spaces 8 @ ''c'', ''y'', ''z'']
   \<and> [''a'' @ spaces 8 @ ''c'', ''y'', ''z''] ! 2 = [''x'', ''y'', ''z''] ! 2"
  using truncation_frame [where items = "[''x'', ''y'', ''z'']" and Platform = GTK
      and left_texts = "[''a'', ''b'']" and right_texts = "[''c'']"
      and GetTextExtent = "fixed_pitch 1" and min_spacing = 8]
  by (simp add: align_eval)

text \<open>
  Outside Windows the statement fails when a text sequence is empty (the default of both
  parameters): line 29 takes \<open>max\<close> of an empty list and raises \<open>ValueError\<close>.
\<close>


theorem no_texts_raises_counterexample:
  "[''filler''] \<noteq> [] \<and> length ([] :: string list) < length [''filler'']
   \<and> align_twosided_items (fixed_pitch 1) GTK [''filler''] 8 [] [] = Inl ValueError"
  by (simp add: align_eval)

text \<open>
  Claim C10, as amended. \<open>SetItems\<close> reads \<open>Value\<close> before it replaces the items of the
  combo box and writes that value back afterwards: the combo box ends in the state
  \<open>set_Value current (set_Items names combo)\<close>, whether or not \<open>update_annotation\<close>
  raised, and \<open>IDs\<close> is untouched. For a combo box that reads back a written value which
  is among the items just set (a read-only combo box does), \<open>Value\<close> is the same before
  and after \<open>SetItems\<close> whenever the current value is the name of one of the new choices.
\<close>

theorem SetItems_preserves_Value:
  "combo_dlg (snd (SetItems wx choices self))
     = set_Value wx (GetValue wx self) (set_Items wx (map fst choices) (combo_dlg self))
   \<and> orig_choices (snd (SetItems wx choices self)) = choices
   \<and> IDs (snd (SetItems wx choices self)) = IDs self
   \<and> ((\<forall>v names c. v \<in> set names \<longrightarrow>
           get_Value wx (set_Value wx v (set_Items wx names c)) = v)
        \<and> GetValue wx self \<in> set (map fst choices) \<longrightarrow>
        GetValue wx (snd (SetItems wx choices self)) = GetValue wx self)"
proof -
  have final: "combo_dlg (snd (SetItems wx choices self))
     = set_Value wx (GetValue wx self) (set_Items wx (map fst choices) (combo_dlg self))
   \<and> orig_choices (snd (SetItems wx choices self)) = choices
   \<and> IDs (snd (SetItems wx choices self)) = IDs self"
    by (rule SetItems_final_widget)
  have "GetValue wx (snd (SetItems wx choices self)) = GetValue wx self"
    if law: "\<forall>v names c. v \<in> set names \<longrightarrow>
               get_Value wx (set_Value wx v (set_Items wx names c)) = v"
      and mem: "GetValue wx self \<in> set (map fst choices)"
  proof -
    have "get_Value wx (set_Value wx (GetValue wx self)
            (set_Items wx (map fst choices) (combo_dlg self))) = GetValue wx self"
      using law mem by blast
    with final show ?thesis by (simp add: GetValue_def)
  qed
  with final show ?thesis by blast
qed

theorem SetItems_preserves_Value_witness:
  "get_Value readonly_combo
       (set_Value readonly_combo ''Nuclei''
          (set_Items readonly_combo [''Cells'', ''Nuclei''] (combo_dlg one_choice_widget)))
     = ''Nuclei''
   \<and> GetValue readonly_combo one_choice_widget = ''Nuclei''
   \<and> GetValue readonly_combo one_choice_widget
       \<in> set (map fst ([(''Cells'', ''IdentifySecondaryObjects'', 3),
                         (''Nuclei'', ''IdentifyPrimaryObjects'', 2)] :: choice list))
   \<and> GetValue readonly_combo
        (snd (SetItems readonly_combo
                [(''Cells'', ''IdentifySecondaryObjects'', 3),
                 (''Nuclei'', ''IdentifyPrimaryObjects'', 2)] one_choice_widget))
       = GetValue readonly_combo one_choice_widget"
proof -
  have law: "\<forall>v names c. v \<in> set names \<longrightarrow>
       get_Value readonly_combo (set_Value readonly_combo v (set_Items readonly_combo names c)) = v"
    by (simp add: readonly_combo_def readonly_reads_back)
  have v: "GetValue readonly_combo one_choice_widget = ''Nuclei''"
    by (simp add: GetValue_def readonly_combo_def one_choice_widget_def)
  have mem: "GetValue readonly_combo one_choice_widget
       \<in> set (map fst ([(''Cells'', ''IdentifySecondaryObjects'', 3),
                         (''Nuclei'', ''IdentifyPrimaryObjects'', 2)] :: choice list))"
    by (simp add: v)
  have inst: "get_Value readonly_combo
       (set_Value readonly_combo ''Nuclei''
          (set_Items readonly_combo [''Cells'', ''Nuclei''] (combo_dlg one_choice_widget)))
     = ''Nuclei''"
    using law [rule_format, of "''Nuclei''" "[''Cells'', ''Nuclei'']"
        "combo_dlg one_choice_widget"]
    by simp
  from SetItems_preserves_Value [of readonly_combo
      "[(''Cells'', ''IdentifySecondaryObjects'', 3), (''Nuclei'', ''IdentifyPrimaryObjects'', 2)]"
      one_choice_widget] law mem v inst
  show ?thesis by blast
qed

text \<open>
  When the current value is not the name of a new choice the value is lost: the read-only
  combo box ignores the write, and after \<open>SetItems\<close> with the single choice \<open>Cells\<close> the
  value \<open>Nuclei\<close> has become the empty string.
\<close>

theorem SetItems_loses_absent_Value_counterexample:
  "GetValue readonly_combo one_choice_widget = ''Nuclei''
   \<and> GetValue readonly_combo
        (snd (SetItems readonly_combo [(''Cells'', ''IdentifySecondaryObjects'', 3)]
                one_choice_widget)) = []
   \<and> GetValue readonly_combo
        (snd (SetItems readonly_combo [(''Cells'', ''IdentifySecondaryObjects'', 3)]
                one_choice_widget))
       \<noteq> GetValue readonly_combo one_choice_widget"
  by (simp add: GetValue_def SetItems_def SetValue_def update_annotation_def py_getitem_def
      readonly_combo_def one_choice_widget_def Let_def)

end
